theory Spec2Isabelle
  imports Main "HOL-Library.Word" "HOL-Library.Multiset"
begin

section \<open>Go values used by the sitemap parser\<close>

text \<open>
  A Go slice is either \<open>nil\<close> or a view of a backing array. The parser tests one slice
  against \<open>nil\<close> (\<open>smIndex.Sitemap != nil\<close>) and others by length, so both states are kept
  apart: \<open>NilSlice\<close> is the nil slice and \<open>Slice xs\<close> a non-nil slice whose visible elements
  are \<open>xs\<close> (possibly none). Go strings and byte slices of document content are both
  modelled as \<open>string\<close> (a list of bytes), so \<open>string(content)\<close> and \<open>[]byte(s)\<close> are the
  identity.
\<close>

datatype 'a slice = NilSlice | Slice "'a list"

fun elems :: "'a slice \<Rightarrow> 'a list" where
  "elems NilSlice = []"
| "elems (Slice xs) = xs"

definition len :: "'a slice \<Rightarrow> nat" where
  "len s = length (elems s)"

text \<open>\<open>append(s, x)\<close>: the result is never nil.\<close>

definition append_slice :: "'a slice \<Rightarrow> 'a \<Rightarrow> 'a slice" where
  "append_slice s x = Slice (elems s @ [x])"

text \<open>
  The same slice header over a backing array whose visible elements have been overwritten
  in place: a nil slice has no backing array and stays nil.
\<close>

fun with_elems :: "'a slice \<Rightarrow> 'a list \<Rightarrow> 'a slice" where
  "with_elems NilSlice ys = NilSlice"
| "with_elems (Slice xs) ys = Slice ys"

text \<open>
  The \<open>error\<close> values the package creates itself, and the errors handed back by the
  libraries it calls (\<open>net/http\<close>, \<open>regexp\<close>, \<open>encoding/xml\<close>, \<open>compress/gzip\<close>), which
  are carried by their message.
\<close>

datatype error =
    ErrorsBeforeParsing
  | HTTPStatus int
  | SitemapIndexEmpty
  | SitemapEmpty
  | LibraryError string

text \<open>Run-time panics of the functions modelled below.\<close>

datatype panic = MakesliceCapOutOfRange

text \<open>
  A compiled \<open>*regexp.Regexp\<close> is identified by the expression it was compiled from.
\<close>

datatype regexp = Regexp string

section \<open>Data model\<close>

record config =
  userAgent :: string
  fetchTimeout :: "8 word"
  multiThread :: bool
  follow :: "string slice"
  followRegexes :: "regexp slice"
  rules :: "string slice"
  rulesRegexes :: "regexp slice"

text \<open>
  \<open>URL\<close> is one \<open><url>\<close> element. The pointer fields are \<open>None\<close> when nil; \<open>LastMod\<close> is
  the parsed instant, \<open>Priority\<close> the bits of the \<open>float32\<close> (no arithmetic is done on it).
\<close>

record URL =
  Loc :: string
  LastMod :: "int option"
  ChangeFreq :: "string option"
  Priority :: "32 word option"

text \<open>One \<open><sitemap>\<close> element of a \<open><sitemapindex>\<close> (an anonymous struct in the source).\<close>

record sitemapEntry =
  EntryLoc :: string
  EntryLastMod :: "string option"

record sitemapIndex =
  IndexXMLName :: "string \<times> string"
  Sitemap :: "sitemapEntry slice"

record URLSet =
  SetXMLName :: "string \<times> string"
  URL :: "URL slice"

record S =
  cfg :: config
  mainURL :: string
  mainURLContent :: string
  robotsTxtSitemapURLs :: "string slice"
  sitemapLocations :: "string slice"
  urls :: "URL slice"
  errs :: "error slice"

section \<open>Construction and configuration\<close>

definition setConfigDefaults :: "S \<Rightarrow> S" where
  "setConfigDefaults s = s\<lparr>cfg :=
     \<lparr>userAgent = ''go-sitemap-parser (+https://github.com/aafeher/go-sitemap-parser/blob/main/README.md)'',
      fetchTimeout = 3,
      multiThread = True,
      follow = Slice [],
      followRegexes = NilSlice,
      rules = Slice [],
      rulesRegexes = NilSlice\<rparr>\<rparr>"

text \<open>\<open>New\<close>: the zero value of \<open>S\<close> with the default configuration.\<close>

definition zero_config :: config where
  "zero_config = \<lparr>userAgent = [], fetchTimeout = 0, multiThread = False, follow = NilSlice,
     followRegexes = NilSlice, rules = NilSlice, rulesRegexes = NilSlice\<rparr>"

definition zero_S :: S where
  "zero_S = \<lparr>cfg = zero_config, mainURL = [], mainURLContent = [],
     robotsTxtSitemapURLs = NilSlice, sitemapLocations = NilSlice, urls = NilSlice,
     errs = NilSlice\<rparr>"

definition New :: S where
  "New = setConfigDefaults zero_S"

definition SetUserAgent :: "string \<Rightarrow> S \<Rightarrow> S" where
  "SetUserAgent ua s = s\<lparr>cfg := (cfg s)\<lparr>userAgent := ua\<rparr>\<rparr>"

definition SetFetchTimeout :: "8 word \<Rightarrow> S \<Rightarrow> S" where
  "SetFetchTimeout t s = s\<lparr>cfg := (cfg s)\<lparr>fetchTimeout := t\<rparr>\<rparr>"

definition SetMultiThread :: "bool \<Rightarrow> S \<Rightarrow> S" where
  "SetMultiThread b s = s\<lparr>cfg := (cfg s)\<lparr>multiThread := b\<rparr>\<rparr>"

section \<open>Read accessors\<close>

text \<open>
  The accessors take a pointer receiver that may be nil: \<open>None\<close> is the nil receiver.
  \<open>int64(len(...))\<close> loses nothing, so the counts are integers.
\<close>

definition GetErrorsCount :: "S option \<Rightarrow> int" where
  "GetErrorsCount s = (case s of None \<Rightarrow> 0 | Some s' \<Rightarrow> int (len (errs s')))"

definition GetErrors :: "S option \<Rightarrow> error slice" where
  "GetErrors s = (case s of None \<Rightarrow> NilSlice | Some s' \<Rightarrow> errs s')"

definition GetURLCount :: "S option \<Rightarrow> int" where
  "GetURLCount s = (case s of None \<Rightarrow> 0
     | Some s' \<Rightarrow> if len (urls s') \<le> 0 then 0 else int (len (urls s')))"

section \<open>Random sampling\<close>

text \<open>
  The loop of \<open>GetRandomURLs\<close>. \<open>originalURLs := s.urls\<close> copies the slice header only, so
  \<open>originalURLs\<close> shares its backing array with \<open>s.urls\<close>: \<open>arr\<close> is that array (its
  elements visible through \<open>s.urls\<close>), \<open>k\<close> is \<open>len(originalURLs)\<close>, and the assignment
  \<open>originalURLs[index] = originalURLs[len(originalURLs)-1]\<close> writes into \<open>arr\<close>.
  \<open>rand.Intn(k)\<close> yields some value below \<open>k\<close>: the \<open>i\<close>-th draw is \<open>rnd i mod k\<close> for
  the generator's stream \<open>rnd\<close>.
\<close>

function GetRandomURLs_loop ::
  "(nat \<Rightarrow> nat) \<Rightarrow> nat \<Rightarrow> nat \<Rightarrow> 'a list \<Rightarrow> nat \<Rightarrow> 'a list \<Rightarrow> 'a list \<times> 'a list" where
  "GetRandomURLs_loop rnd i n arr k randURLs =
     (if i < n then
        (if k = 0 then (randURLs, arr)
         else
           (let index = rnd i mod k
            in GetRandomURLs_loop rnd (Suc i) n (arr[index := arr ! (k - 1)]) (k - 1)
                 (randURLs @ [arr ! index])))
      else (randURLs, arr))"
  by pat_completeness auto
termination
  by (relation "measure (\<lambda>(rnd, i, n, arr, k, randURLs). n - i)") auto

declare GetRandomURLs_loop.simps [simp del]

text \<open>
  \<open>GetRandomURLs\<close> returns the sample and the receiver as the call leaves it.
  \<open>make([]URL, 0, n)\<close> panics for a negative \<open>n\<close>; the allocation limit of \<open>make\<close> for
  a very large \<open>n\<close> is outside the model.
\<close>

definition GetRandomURLs ::
  "(nat \<Rightarrow> nat) \<Rightarrow> S option \<Rightarrow> int \<Rightarrow> panic + (URL slice \<times> S option)" where
  "GetRandomURLs rnd s n =
     (case s of
        None \<Rightarrow> Inr (Slice [], None)
      | Some s' \<Rightarrow>
          if n < 0 then Inl MakesliceCapOutOfRange
          else
            (case GetRandomURLs_loop rnd 0 (nat n) (elems (urls s')) (len (urls s')) [] of
               (randURLs, arr) \<Rightarrow>
                 Inr (Slice randURLs, Some (s'\<lparr>urls := with_elems (urls s') arr\<rparr>))))"

section \<open>External collaborators\<close>

text \<open>
  The HTTP transport, the regular-expression engine, the XML decoder and the gzip codec
  are libraries outside the package: their behaviour is a parameter of the model.

  \<^item> One HTTP exchange ends in an error of \<open>http.NewRequest\<close>, an error of
    \<open>client.Do\<close>, or a response with its status code and the outcome of reading its body.
  \<^item> \<open>gzip.NewReader\<close> fails, or \<open>io.ReadAll\<close> hands back what it read and an optional
    error, of which \<open>io.ErrUnexpectedEOF\<close> is told apart.
  \<^item> A decoder fills a zero-valued struct and returns an optional error; it may leave
    entries behind even when it fails.
\<close>

datatype http_outcome =
    NewRequestError error
  | DoError error
  | Response int "error + string"

datatype read_error = ErrUnexpectedEOF | OtherReadError error

datatype gzip_outcome =
    NewReaderError error
  | ReadAll string "read_error option"

text \<open>
  \<open>multiThreadRun\<close> stands for the effect of \<open>parseAndFetchUrlsMultiThread\<close> on the
  receiver: its goroutines append to the shared slices without a lock, so what it leaves
  behind depends on the interleaving and is not computed here (\<open>None\<close>: it does not
  return). \<open>goroutineOrder\<close> is the order in which the scheduler lets the goroutines of
  \<open>Parse\<close> take the mutex.
\<close>

record env =
  http_get :: "8 word \<Rightarrow> string \<Rightarrow> string \<Rightarrow> http_outcome"
  regexp_Compile :: "string \<Rightarrow> error + regexp"
  MatchString :: "regexp \<Rightarrow> string \<Rightarrow> bool"
  decodeSitemapIndex :: "string \<Rightarrow> sitemapIndex \<times> error option"
  decodeURLSet :: "string \<Rightarrow> URLSet \<times> error option"
  gzip_read :: "string \<Rightarrow> gzip_outcome"
  multiThreadRun :: "S \<Rightarrow> string slice \<Rightarrow> S option"
  goroutineOrder :: "string list \<Rightarrow> string list"

section \<open>Strings\<close>

definition HasPrefix :: "string \<Rightarrow> string \<Rightarrow> bool" where
  "HasPrefix s p = (take (length p) s = p)"

definition HasSuffix :: "string \<Rightarrow> string \<Rightarrow> bool" where
  "HasSuffix s p = (length p \<le> length s \<and> drop (length s - length p) s = p)"

text \<open>
  \<open>strings.Split\<close> for a non-empty separator (the package uses the separators
  \<open>"\n"\<close> and \<open>"Sitemap: "\<close> only): \<open>cur\<close> is the piece being read.
\<close>

fun Split_from :: "string \<Rightarrow> string \<Rightarrow> string \<Rightarrow> string list" where
  "Split_from sep cur [] = [cur]"
| "Split_from sep cur (c # cs) =
     (if sep \<noteq> [] \<and> HasPrefix (c # cs) sep
      then cur # Split_from sep [] (drop (length sep - 1) cs)
      else Split_from sep (cur @ [c]) cs)"

definition Split :: "string \<Rightarrow> string \<Rightarrow> string list" where
  "Split s sep = Split_from sep [] s"

section \<open>Filter configuration\<close>

text \<open>
  The loops of \<open>SetFollow\<close> and \<open>SetRules\<close>: a pattern that does not compile adds its
  error to \<open>errs\<close> and is skipped.
\<close>

fun SetFollow_loop :: "env \<Rightarrow> string list \<Rightarrow> S \<Rightarrow> S" where
  "SetFollow_loop env [] s = s"
| "SetFollow_loop env (followPattern # ps) s =
     (case regexp_Compile env followPattern of
        Inl err \<Rightarrow> SetFollow_loop env ps (s\<lparr>errs := append_slice (errs s) err\<rparr>)
      | Inr re \<Rightarrow> SetFollow_loop env ps
          (s\<lparr>cfg := (cfg s)\<lparr>followRegexes := append_slice (followRegexes (cfg s)) re\<rparr>\<rparr>))"

definition SetFollow :: "env \<Rightarrow> string slice \<Rightarrow> S \<Rightarrow> S" where
  "SetFollow env regexes s =
     SetFollow_loop env (elems regexes) (s\<lparr>cfg := (cfg s)\<lparr>follow := regexes\<rparr>\<rparr>)"

fun SetRules_loop :: "env \<Rightarrow> string list \<Rightarrow> S \<Rightarrow> S" where
  "SetRules_loop env [] s = s"
| "SetRules_loop env (rulePattern # ps) s =
     (case regexp_Compile env rulePattern of
        Inl err \<Rightarrow> SetRules_loop env ps (s\<lparr>errs := append_slice (errs s) err\<rparr>)
      | Inr re \<Rightarrow> SetRules_loop env ps
          (s\<lparr>cfg := (cfg s)\<lparr>rulesRegexes := append_slice (rulesRegexes (cfg s)) re\<rparr>\<rparr>))"

definition SetRules :: "env \<Rightarrow> string slice \<Rightarrow> S \<Rightarrow> S" where
  "SetRules env regexes s =
     SetRules_loop env (elems regexes) (s\<lparr>cfg := (cfg s)\<lparr>rules := regexes\<rparr>\<rparr>)"

section \<open>Fetching and decompression\<close>

definition fetch :: "env \<Rightarrow> S \<Rightarrow> string \<Rightarrow> error + string" where
  "fetch env s url =
     (case http_get env (fetchTimeout (cfg s)) (userAgent (cfg s)) url of
        NewRequestError err \<Rightarrow> Inl err
      | DoError err \<Rightarrow> Inl err
      | Response StatusCode body \<Rightarrow>
          if StatusCode \<noteq> 200 then Inl (HTTPStatus StatusCode)
          else (case body of Inl err \<Rightarrow> Inl err | Inr b \<Rightarrow> Inr b))"

definition setContent :: "env \<Rightarrow> S \<Rightarrow> string option \<Rightarrow> string \<times> error option" where
  "setContent env s urlContent =
     (case urlContent of
        Some c \<Rightarrow> (c, None)
      | None \<Rightarrow>
          (case fetch env s (mainURL s) of
             Inl err \<Rightarrow> ([], Some err)
           | Inr body \<Rightarrow> (body, None)))"

definition unzip :: "env \<Rightarrow> string \<Rightarrow> string \<times> error option" where
  "unzip env content =
     (case gzip_read env content of
        NewReaderError err \<Rightarrow> (content, Some err)
      | ReadAll uncompressed None \<Rightarrow> (uncompressed, None)
      | ReadAll uncompressed (Some ErrUnexpectedEOF) \<Rightarrow> (uncompressed, None)
      | ReadAll uncompressed (Some (OtherReadError err)) \<Rightarrow> (content, Some err))"

definition gzipPrefix :: string where
  "gzipPrefix = [CHR 0x1F, CHR 0x8B, CHR 0x08]"

definition checkAndUnzipContent :: "env \<Rightarrow> S \<Rightarrow> string \<Rightarrow> string \<times> S" where
  "checkAndUnzipContent env s content =
     (if HasPrefix content gzipPrefix then
        (case unzip env content of
           (uncompressed, Some err) \<Rightarrow> (content, s\<lparr>errs := append_slice (errs s) err\<rparr>)
         | (uncompressed, None) \<Rightarrow> (uncompressed, s))
      else (content, s))"

section \<open>The redirector\<close>

text \<open>
  A line that starts with \<open>"Sitemap: "\<close> splits into at least two pieces, so the index 1
  of the source is always in range.
\<close>

fun parseRobotsTXT_loop :: "string list \<Rightarrow> S \<Rightarrow> S" where
  "parseRobotsTXT_loop [] s = s"
| "parseRobotsTXT_loop (line # lines) s =
     (if \<not> HasPrefix line ''Sitemap: '' then parseRobotsTXT_loop lines s
      else parseRobotsTXT_loop lines
             (s\<lparr>robotsTxtSitemapURLs :=
                  append_slice (robotsTxtSitemapURLs s) (Split line ''Sitemap: '' ! 1)\<rparr>))"

definition parseRobotsTXT :: "S \<Rightarrow> string \<Rightarrow> S" where
  "parseRobotsTXT s robotsTXTContent = parseRobotsTXT_loop (Split robotsTXTContent [CHR 0x0A]) s"

section \<open>Classification and one parse step\<close>

definition zero_sitemapIndex :: sitemapIndex where
  "zero_sitemapIndex = \<lparr>IndexXMLName = ([], []), Sitemap = NilSlice\<rparr>"

definition zero_URLSet :: URLSet where
  "zero_URLSet = \<lparr>SetXMLName = ([], []), URL = NilSlice\<rparr>"

definition parseSitemapIndex :: "env \<Rightarrow> string \<Rightarrow> sitemapIndex \<times> error option" where
  "parseSitemapIndex env data =
     (if length data = 0 then (zero_sitemapIndex, Some SitemapIndexEmpty)
      else decodeSitemapIndex env data)"

definition parseURLSet :: "env \<Rightarrow> string \<Rightarrow> URLSet \<times> error option" where
  "parseURLSet env data =
     (if length data = 0 then (zero_URLSet, Some SitemapEmpty)
      else decodeURLSet env data)"

text \<open>
  The test both filter loops of \<open>parse\<close> make: with no compiled pattern everything
  matches, otherwise the first matching pattern ends the search.
\<close>

fun anyMatch :: "env \<Rightarrow> regexp list \<Rightarrow> string \<Rightarrow> bool" where
  "anyMatch env [] loc = False"
| "anyMatch env (re # res) loc = (if MatchString env re loc then True else anyMatch env res loc)"

definition matches :: "env \<Rightarrow> regexp slice \<Rightarrow> string \<Rightarrow> bool" where
  "matches env regexes loc = (if len regexes > 0 then anyMatch env (elems regexes) loc else True)"

text \<open>The branch of the \<open>if\<close> / \<open>else if\<close> chain of \<open>parse\<close> that a pair of decode results takes.\<close>

datatype document_kind = IndexDocument | LeafSetDocument | NeitherDocument

definition kind_of :: "sitemapIndex \<Rightarrow> URLSet \<Rightarrow> document_kind" where
  "kind_of smIndex urlSet =
     (if Sitemap smIndex \<noteq> NilSlice then IndexDocument
      else if len (URL urlSet) > 0 then LeafSetDocument
      else NeitherDocument)"

definition classify :: "env \<Rightarrow> string \<Rightarrow> document_kind" where
  "classify env content =
     kind_of (fst (parseSitemapIndex env content)) (fst (parseURLSet env content))"

text \<open>The loop over the children of an index: the locations added, and the receiver.\<close>

fun parse_index_loop :: "env \<Rightarrow> sitemapEntry list \<Rightarrow> string slice \<times> S \<Rightarrow> string slice \<times> S" where
  "parse_index_loop env [] (sitemapLocationsAdded, s) = (sitemapLocationsAdded, s)"
| "parse_index_loop env (sitemapIndexSitemap # rest) (sitemapLocationsAdded, s) =
     (if \<not> matches env (followRegexes (cfg s)) (EntryLoc sitemapIndexSitemap)
      then parse_index_loop env rest (sitemapLocationsAdded, s)
      else parse_index_loop env rest
             (append_slice sitemapLocationsAdded (EntryLoc sitemapIndexSitemap),
              s\<lparr>sitemapLocations :=
                   append_slice (sitemapLocations s) (EntryLoc sitemapIndexSitemap)\<rparr>))"

text \<open>The loop over the entries of a URL set.\<close>

fun parse_urlset_loop :: "env \<Rightarrow> URL list \<Rightarrow> S \<Rightarrow> S" where
  "parse_urlset_loop env [] s = s"
| "parse_urlset_loop env (urlSetURL # rest) s =
     (if \<not> matches env (rulesRegexes (cfg s)) (Loc urlSetURL)
      then parse_urlset_loop env rest s
      else parse_urlset_loop env rest (s\<lparr>urls := append_slice (urls s) urlSetURL\<rparr>))"

definition record_parse_errors ::
  "sitemapIndex \<Rightarrow> error option \<Rightarrow> URLSet \<Rightarrow> error option \<Rightarrow> S \<Rightarrow> S" where
  "record_parse_errors smIndex errSitemapIndex urlSet errURLSet s =
     (let s1 = (case errSitemapIndex of
                  Some err \<Rightarrow>
                    if len (URL urlSet) = 0 then s\<lparr>errs := append_slice (errs s) err\<rparr> else s
                | None \<Rightarrow> s)
      in (case errURLSet of
            Some err \<Rightarrow>
              if Sitemap smIndex = NilSlice then s1\<lparr>errs := append_slice (errs s1) err\<rparr> else s1
          | None \<Rightarrow> s1))"

definition parse :: "env \<Rightarrow> S \<Rightarrow> string \<Rightarrow> string \<Rightarrow> string slice \<times> S" where
  "parse env s url content =
     (case parseSitemapIndex env content of (smIndex, errSitemapIndex) \<Rightarrow>
      case parseURLSet env content of (urlSet, errURLSet) \<Rightarrow>
      case (case kind_of smIndex urlSet of
              IndexDocument \<Rightarrow>
                parse_index_loop env (elems (Sitemap smIndex))
                  (NilSlice, s\<lparr>sitemapLocations := append_slice (sitemapLocations s) url\<rparr>)
            | LeafSetDocument \<Rightarrow> (NilSlice, parse_urlset_loop env (elems (URL urlSet)) s)
            | NeitherDocument \<Rightarrow> (NilSlice, s))
      of (sitemapLocationsAdded, s1) \<Rightarrow>
        (sitemapLocationsAdded,
         record_parse_errors smIndex errSitemapIndex urlSet errURLSet s1))"

section \<open>Traversal\<close>

text \<open>
  \<open>parseAndFetchUrlsSequential\<close> recurses on the locations an index yields, and an index
  that names itself makes it recurse for ever: \<open>fuel\<close> bounds the depth of the recursion
  and \<open>None\<close> is the run that does not return within it.
\<close>

fun parseAndFetchUrlsSequential :: "env \<Rightarrow> nat \<Rightarrow> S \<Rightarrow> string list \<Rightarrow> S option" where
  "parseAndFetchUrlsSequential env fuel s [] = Some s"
| "parseAndFetchUrlsSequential env fuel s (location # locations) =
     (case fetch env s location of
        Inl err \<Rightarrow>
          parseAndFetchUrlsSequential env fuel (s\<lparr>errs := append_slice (errs s) err\<rparr>) locations
      | Inr content \<Rightarrow>
          (case checkAndUnzipContent env s content of (content1, s1) \<Rightarrow>
           case parse env s1 location content1 of (parsedLocations, s2) \<Rightarrow>
             if len parsedLocations > 0 then
               (case fuel of
                  0 \<Rightarrow> None
                | Suc fuel' \<Rightarrow>
                    (case parseAndFetchUrlsSequential env fuel' s2 (elems parsedLocations) of
                       None \<Rightarrow> None
                     | Some s3 \<Rightarrow> parseAndFetchUrlsSequential env fuel s3 locations))
             else parseAndFetchUrlsSequential env fuel s2 locations))"

text \<open>
  The traversal \<open>Parse\<close> starts on the locations a parse step returned, by the
  configured strategy.
\<close>

definition parseAndFetchUrls :: "env \<Rightarrow> nat \<Rightarrow> S \<Rightarrow> string slice \<Rightarrow> S option" where
  "parseAndFetchUrls env fuel s locations =
     (if multiThread (cfg s) then multiThreadRun env s locations
      else parseAndFetchUrlsSequential env fuel s (elems locations))"

text \<open>
  The body of one goroutine of \<open>Parse\<close> on a \<open>robots.txt\<close>; it holds the mutex from its
  first statement to its last, so the goroutines run one after the other.
\<close>

definition robots_goroutine :: "env \<Rightarrow> nat \<Rightarrow> S \<Rightarrow> string \<Rightarrow> S option" where
  "robots_goroutine env fuel s rTXTsmURL =
     (case fetch env s rTXTsmURL of
        Inl err \<Rightarrow> Some (s\<lparr>errs := append_slice (errs s) err\<rparr>)
      | Inr robotsTXTSitemapContent \<Rightarrow>
          (case checkAndUnzipContent env s robotsTXTSitemapContent of (content1, s1) \<Rightarrow>
           case parse env s1 rTXTsmURL content1 of (locations, s2) \<Rightarrow>
             parseAndFetchUrls env fuel s2 locations))"

fun robots_goroutines :: "env \<Rightarrow> nat \<Rightarrow> S \<Rightarrow> string list \<Rightarrow> S option" where
  "robots_goroutines env fuel s [] = Some s"
| "robots_goroutines env fuel s (u # us) =
     (case robots_goroutine env fuel s u of
        None \<Rightarrow> None
      | Some s' \<Rightarrow> robots_goroutines env fuel s' us)"

text \<open>
  \<open>Parse\<close> returns the receiver and the error, when it returns. Its two branches, on a
  \<open>robots.txt\<close> and on a sitemap document, are \<open>Parse_robots\<close> and \<open>Parse_sitemap\<close>.
\<close>

definition Parse_robots :: "env \<Rightarrow> nat \<Rightarrow> S \<Rightarrow> (S \<times> error option) option" where
  "Parse_robots env fuel s =
     (let s1 = parseRobotsTXT s (mainURLContent s) in
      (case robots_goroutines env fuel s1 (goroutineOrder env (elems (robotsTxtSitemapURLs s1))) of
         None \<Rightarrow> None
       | Some s' \<Rightarrow> Some (s', None)))"

definition Parse_sitemap :: "env \<Rightarrow> nat \<Rightarrow> S \<Rightarrow> (S \<times> error option) option" where
  "Parse_sitemap env fuel s =
     (case checkAndUnzipContent env s (mainURLContent s) of
        (content1, s1) \<Rightarrow>
          (let s2 = s1\<lparr>mainURLContent := content1\<rparr> in
           (case parse env s2 (mainURL s2) (mainURLContent s2) of
              (locations, s3) \<Rightarrow>
                (case parseAndFetchUrls env fuel s3 locations of
                   None \<Rightarrow> None
                 | Some s' \<Rightarrow> Some (s', None)))))"

definition Parse ::
  "env \<Rightarrow> nat \<Rightarrow> S \<Rightarrow> string \<Rightarrow> string option \<Rightarrow> (S \<times> error option) option" where
  "Parse env fuel s url urlContent =
     (if len (errs s) > 0 then Some (s, Some ErrorsBeforeParsing)
      else
        (let s1 = s\<lparr>mainURL := url\<rparr> in
         (case setContent env s1 urlContent of
            (content, err) \<Rightarrow>
              (let s2 = s1\<lparr>mainURLContent := content\<rparr> in
               (case err of
                  Some e \<Rightarrow> Some (s2\<lparr>errs := append_slice (errs s2) e\<rparr>, Some e)
                | None \<Rightarrow>
                    if HasSuffix (mainURL s2) ''/robots.txt'' then Parse_robots env fuel s2
                    else Parse_sitemap env fuel s2)))))"

section \<open>A sample site\<close>

text \<open>
  Concrete documents and collaborators on which the functions above are evaluated. The
  decoder results are those of \<open>encoding/xml\<close> on these texts: on \<open>truncated_index\<close>
  the input ends inside the first \<open><sitemap>\<close> element, and the decoder, which grows the
  slice before it reads the element and cuts it back when the element fails, leaves a
  slice that is allocated but holds no entry. A pattern is matched as a literal.
\<close>

definition url_of :: "string \<Rightarrow> URL" where
  "url_of loc = \<lparr>Loc = loc, LastMod = None, ChangeFreq = None, Priority = None\<rparr>"

definition entry_of :: "string \<Rightarrow> sitemapEntry" where
  "entry_of loc = \<lparr>EntryLoc = loc, EntryLastMod = None\<rparr>"

fun contains :: "string \<Rightarrow> string \<Rightarrow> bool" where
  "contains [] p = (p = [])"
| "contains (c # cs) p = (HasPrefix (c # cs) p \<or> contains cs p)"

definition index_doc :: string where
  "index_doc = ''<sitemapindex><sitemap><loc>http://h/a.xml</loc></sitemap><sitemap><loc>http://h/b.xml</loc></sitemap></sitemapindex>''"

definition truncated_index :: string where
  "truncated_index = ''<sitemapindex><sitemap><loc>x''"

definition leaf_doc :: string where
  "leaf_doc = ''<urlset><url><loc>http://h/page-01</loc></url><url><loc>http://h/page-02</loc></url></urlset>''"

definition sample_decodeSitemapIndex :: "string \<Rightarrow> sitemapIndex \<times> error option" where
  "sample_decodeSitemapIndex data =
     (if data = index_doc then
        (\<lparr>IndexXMLName = ([], ''sitemapindex''),
          Sitemap = Slice [entry_of ''http://h/a.xml'', entry_of ''http://h/b.xml'']\<rparr>, None)
      else if data = truncated_index then
        (\<lparr>IndexXMLName = ([], ''sitemapindex''), Sitemap = Slice []\<rparr>,
         Some (LibraryError ''XML syntax error on line 1: unexpected EOF''))
      else if data = leaf_doc then
        (zero_sitemapIndex,
         Some (LibraryError ''expected element type <sitemapindex> but have <urlset>''))
      else (zero_sitemapIndex, Some (LibraryError ''EOF'')))"

definition sample_decodeURLSet :: "string \<Rightarrow> URLSet \<times> error option" where
  "sample_decodeURLSet data =
     (if data = leaf_doc then
        (\<lparr>SetXMLName = ([], ''urlset''),
          URL = Slice [url_of ''http://h/page-01'', url_of ''http://h/page-02'']\<rparr>, None)
      else if data = index_doc \<or> data = truncated_index then
        (zero_URLSet,
         Some (LibraryError ''expected element type <urlset> but have <sitemapindex>''))
      else (zero_URLSet, Some (LibraryError ''EOF'')))"

definition sample_http_get :: "8 word \<Rightarrow> string \<Rightarrow> string \<Rightarrow> http_outcome" where
  "sample_http_get timeout ua url =
     (if url = ''http://h/empty.xml'' then Response 200 (Inr [])
      else if url = ''http://h/sitemap.xml'' then Response 200 (Inr leaf_doc)
      else Response 404 (Inr ''not found''))"

definition sample_env :: env where
  "sample_env =
     \<lparr>http_get = sample_http_get,
      regexp_Compile =
        (\<lambda>p. if p = ''('' then Inl (LibraryError ''error parsing regexp: missing closing )'')
             else Inr (Regexp p)),
      MatchString = (\<lambda>re loc. case re of Regexp p \<Rightarrow> contains loc p),
      decodeSitemapIndex = sample_decodeSitemapIndex,
      decodeURLSet = sample_decodeURLSet,
      gzip_read = (\<lambda>content. NewReaderError (LibraryError ''gzip: invalid header'')),
      multiThreadRun = (\<lambda>s locations. None),
      goroutineOrder = (\<lambda>us. us)\<rparr>"

definition sample_urls :: "URL list" where
  "sample_urls = [url_of ''http://h/page-01'', url_of ''http://h/page-02'', url_of ''http://h/page-03'']"

definition sample_S :: S where
  "sample_S = New\<lparr>urls := Slice sample_urls\<rparr>"

section \<open>Slices\<close>

lemma elems_append_slice [simp]: "elems (append_slice s x) = elems s @ [x]"
  by (simp add: append_slice_def)

lemma len_append_slice [simp]: "len (append_slice s x) = Suc (len s)"
  by (simp add: len_def)

lemma append_slice_not_nil [simp]: "append_slice s x \<noteq> NilSlice"
  by (simp add: append_slice_def)

lemma len_NilSlice [simp]: "len NilSlice = 0"
  by (simp add: len_def)

lemma len_Slice [simp]: "len (Slice xs) = length xs"
  by (simp add: len_def)

lemma elems_foldl_append_slice [simp]: "elems (foldl append_slice a xs) = elems a @ xs"
  by (induction xs arbitrary: a) simp_all

section \<open>The loops of one parse step\<close>

lemma parse_index_loop_added:
  "elems (fst (parse_index_loop env es (added, s))) =
     elems added @ filter (matches env (followRegexes (cfg s))) (map EntryLoc es)"
  by (induction es arbitrary: added s) simp_all

lemma parse_index_loop_state:
  "snd (parse_index_loop env es (added, s)) =
     s\<lparr>sitemapLocations :=
         foldl append_slice (sitemapLocations s)
           (filter (matches env (followRegexes (cfg s))) (map EntryLoc es))\<rparr>"
  by (induction es arbitrary: added s) simp_all

lemma parse_urlset_loop_state:
  "parse_urlset_loop env us s =
     s\<lparr>urls := foldl append_slice (urls s)
                 (filter (\<lambda>u. matches env (rulesRegexes (cfg s)) (Loc u)) us)\<rparr>"
  by (induction us arbitrary: s) simp_all

lemma record_parse_errors_frame [simp]:
  "sitemapLocations (record_parse_errors smIndex e1 urlSet e2 s) = sitemapLocations s"
  "urls (record_parse_errors smIndex e1 urlSet e2 s) = urls s"
  "cfg (record_parse_errors smIndex e1 urlSet e2 s) = cfg s"
  by (simp_all add: record_parse_errors_def Let_def split: option.splits)

text \<open>What \<open>parse\<close> does in each branch.\<close>

lemma parse_IndexDocument:
  assumes "classify env content = IndexDocument"
  shows "elems (fst (parse env s url content)) =
           filter (matches env (followRegexes (cfg s)))
             (map EntryLoc (elems (Sitemap (fst (parseSitemapIndex env content)))))"
    and "elems (sitemapLocations (snd (parse env s url content))) =
           elems (sitemapLocations s) @ url #
             filter (matches env (followRegexes (cfg s)))
               (map EntryLoc (elems (Sitemap (fst (parseSitemapIndex env content)))))"
    and "urls (snd (parse env s url content)) = urls s"
proof -
  obtain smIndex e1 where p1: "parseSitemapIndex env content = (smIndex, e1)" by force
  obtain urlSet e2 where p2: "parseURLSet env content = (urlSet, e2)" by force
  define s0 where "s0 = s\<lparr>sitemapLocations := append_slice (sitemapLocations s) url\<rparr>"
  define kept where
    "kept = filter (matches env (followRegexes (cfg s))) (map EntryLoc (elems (Sitemap smIndex)))"
  have k: "kind_of smIndex urlSet = IndexDocument"
    using assms by (simp add: classify_def p1 p2)
  obtain added s1 where
    l: "parse_index_loop env (elems (Sitemap smIndex)) (NilSlice, s0) = (added, s1)"
    by force
  have pr: "parse env s url content = (added, record_parse_errors smIndex e1 urlSet e2 s1)"
    using l by (simp add: parse_def p1 p2 k s0_def)
  have a: "elems added = kept"
    using parse_index_loop_added [of env "elems (Sitemap smIndex)" NilSlice s0] l
    by (simp add: s0_def kept_def)
  have b: "s1 = s\<lparr>sitemapLocations := foldl append_slice (append_slice (sitemapLocations s) url) kept\<rparr>"
    using parse_index_loop_state [of env "elems (Sitemap smIndex)" NilSlice s0] l
    by (simp add: s0_def kept_def)
  show "elems (fst (parse env s url content)) =
           filter (matches env (followRegexes (cfg s)))
             (map EntryLoc (elems (Sitemap (fst (parseSitemapIndex env content)))))"
    by (simp add: pr a p1 kept_def)
  show "elems (sitemapLocations (snd (parse env s url content))) =
           elems (sitemapLocations s) @ url #
             filter (matches env (followRegexes (cfg s)))
               (map EntryLoc (elems (Sitemap (fst (parseSitemapIndex env content)))))"
    by (simp add: pr b p1 kept_def)
  show "urls (snd (parse env s url content)) = urls s"
    by (simp add: pr b)
qed

lemma parse_LeafSetDocument:
  assumes "classify env content = LeafSetDocument"
  shows "fst (parse env s url content) = NilSlice"
    and "elems (urls (snd (parse env s url content))) =
           elems (urls s) @ filter (\<lambda>u. matches env (rulesRegexes (cfg s)) (Loc u))
             (elems (URL (fst (parseURLSet env content))))"
    and "sitemapLocations (snd (parse env s url content)) = sitemapLocations s"
proof -
  obtain smIndex e1 where p1: "parseSitemapIndex env content = (smIndex, e1)" by force
  obtain urlSet e2 where p2: "parseURLSet env content = (urlSet, e2)" by force
  have k: "kind_of smIndex urlSet = LeafSetDocument"
    using assms by (simp add: classify_def p1 p2)
  have pr: "parse env s url content =
      (NilSlice,
       record_parse_errors smIndex e1 urlSet e2 (parse_urlset_loop env (elems (URL urlSet)) s))"
    by (simp add: parse_def p1 p2 k)
  show "fst (parse env s url content) = NilSlice" by (simp add: pr)
  show "elems (urls (snd (parse env s url content))) =
           elems (urls s) @ filter (\<lambda>u. matches env (rulesRegexes (cfg s)) (Loc u))
             (elems (URL (fst (parseURLSet env content))))"
    by (simp add: pr p2 parse_urlset_loop_state [of env "elems (URL urlSet)" s])
  show "sitemapLocations (snd (parse env s url content)) = sitemapLocations s"
    by (simp add: pr parse_urlset_loop_state [of env "elems (URL urlSet)" s])
qed



section \<open>Configuration errors and the entry fetch\<close>

lemma SetFollow_loop_errs:
  "elems (errs (SetFollow_loop env ps s)) =
     elems (errs s) @
     concat (map (\<lambda>p. case regexp_Compile env p of Inl err \<Rightarrow> [err] | Inr re \<Rightarrow> []) ps)"
  by (induction ps arbitrary: s) (simp_all split: sum.splits)

lemma SetRules_loop_errs:
  "elems (errs (SetRules_loop env ps s)) =
     elems (errs s) @
     concat (map (\<lambda>p. case regexp_Compile env p of Inl err \<Rightarrow> [err] | Inr re \<Rightarrow> []) ps)"
  by (induction ps arbitrary: s) (simp_all split: sum.splits)

lemma compile_errors_nonempty:
  "p \<in> set ps \<Longrightarrow> regexp_Compile env p = Inl err \<Longrightarrow>
   concat (map (\<lambda>p. case regexp_Compile env p of Inl err \<Rightarrow> [err] | Inr re \<Rightarrow> []) ps) \<noteq> []"
  by (induction ps) (auto split: sum.splits)

lemma SetFollow_records_error:
  "p \<in> set (elems regexes) \<Longrightarrow> regexp_Compile env p = Inl err \<Longrightarrow>
   0 < len (errs (SetFollow env regexes s))"
  using compile_errors_nonempty [of p "elems regexes" env err]
  by (simp add: SetFollow_def len_def SetFollow_loop_errs)

lemma SetRules_records_error:
  "p \<in> set (elems regexes) \<Longrightarrow> regexp_Compile env p = Inl err \<Longrightarrow>
   0 < len (errs (SetRules env regexes s))"
  using compile_errors_nonempty [of p "elems regexes" env err]
  by (simp add: SetRules_def len_def SetRules_loop_errs)

lemma Parse_guard:
  "0 < len (errs s) \<Longrightarrow> Parse env fuel s url urlContent = Some (s, Some ErrorsBeforeParsing)"
  by (simp add: Parse_def)

lemma fetch_mainURL [simp]: "fetch env (s\<lparr>mainURL := u\<rparr>) url = fetch env s url"
  by (simp add: fetch_def)

text \<open>
  \<open>fetch\<close> fails on an error of the request or of the exchange, on a status other than
  200, and on an error while the body is read.
\<close>

lemma fetch_failure_cases:
  "fetch env s url = Inl e \<longleftrightarrow>
     (case http_get env (fetchTimeout (cfg s)) (userAgent (cfg s)) url of
        NewRequestError err \<Rightarrow> e = err
      | DoError err \<Rightarrow> e = err
      | Response StatusCode body \<Rightarrow>
          (StatusCode \<noteq> 200 \<and> e = HTTPStatus StatusCode) \<or> (StatusCode = 200 \<and> body = Inl e))"
  by (auto simp: fetch_def split: http_outcome.splits sum.splits)

lemma Parse_fetch_failure:
  assumes "len (errs s) = 0" and "fetch env s url = Inl e"
  shows "Parse env fuel s url None =
           Some (s\<lparr>mainURL := url, mainURLContent := [], errs := Slice [e]\<rparr>, Some e)"
proof -
  have "elems (errs s) = []" using assms(1) by (simp add: len_def)
  then show ?thesis
    using assms by (simp add: Parse_def setContent_def append_slice_def)
qed


section \<open>The sampling loop\<close>






section \<open>The sample site, evaluated\<close>

lemma New_fields [simp]:
  "sitemapLocations New = NilSlice" "urls New = NilSlice" "errs New = NilSlice"
  "followRegexes (cfg New) = NilSlice" "rulesRegexes (cfg New) = NilSlice"
  by (simp_all add: New_def setConfigDefaults_def zero_S_def)

lemma sample_index_eval:
  "parseSitemapIndex sample_env index_doc =
     (\<lparr>IndexXMLName = ([], ''sitemapindex''),
       Sitemap = Slice [entry_of ''http://h/a.xml'', entry_of ''http://h/b.xml'']\<rparr>, None)"
  by (simp add: parseSitemapIndex_def sample_env_def sample_decodeSitemapIndex_def index_doc_def)

lemma sample_leaf_eval:
  "parseURLSet sample_env leaf_doc =
     (\<lparr>SetXMLName = ([], ''urlset''),
       URL = Slice [url_of ''http://h/page-01'', url_of ''http://h/page-02'']\<rparr>, None)"
  "parseSitemapIndex sample_env leaf_doc =
     (zero_sitemapIndex,
      Some (LibraryError ''expected element type <sitemapindex> but have <urlset>''))"
  by (simp_all add: parseSitemapIndex_def parseURLSet_def sample_env_def
      sample_decodeSitemapIndex_def sample_decodeURLSet_def index_doc_def leaf_doc_def
      truncated_index_def)


lemma sample_follow:
  "followRegexes (cfg (SetFollow sample_env (Slice [''a.xml'']) New)) = Slice [Regexp ''a.xml'']"
  "sitemapLocations (SetFollow sample_env (Slice [''a.xml'']) New) = NilSlice"
  by (simp_all add: SetFollow_def sample_env_def append_slice_def)

lemma sample_rules:
  "rulesRegexes (cfg (SetRules sample_env (Slice [''page-02'']) New)) = Slice [Regexp ''page-02'']"
  "urls (SetRules sample_env (Slice [''page-02'']) New) = NilSlice"
  "sitemapLocations (SetRules sample_env (Slice [''page-02'']) New) = NilSlice"
  by (simp_all add: SetRules_def sample_env_def append_slice_def)

lemma sample_MatchString [simp]: "MatchString sample_env (Regexp p) loc = contains loc p"
  by (simp add: sample_env_def)

lemma sample_fetch [simp]:
  "fetch sample_env s url =
     (if url = ''http://h/empty.xml'' then Inr []
      else if url = ''http://h/sitemap.xml'' then Inr leaf_doc
      else Inl (HTTPStatus 404))"
  by (simp add: fetch_def sample_env_def sample_http_get_def)


section \<open>Classification\<close>




section \<open>One parse step on an index\<close>

text \<open>
  C3. On a document that \<open>parse\<close> classifies as an index, with \<open>admitted\<close> the child
  locators that pass the follow filter (N of them), one parse step appends the index's own
  locator and then the admitted children to the discovered locations, which grow by
  exactly 1 + N, and it returns exactly the admitted children. The receiver is arbitrary,
  so this holds under either setting of \<open>multiThread\<close>.
\<close>

theorem parse_index_step:
  assumes "classify env content = IndexDocument"
  shows "(let children = map EntryLoc (elems (Sitemap (fst (parseSitemapIndex env content))));
              admitted = filter (matches env (followRegexes (cfg s))) children;
              r = parse env s url content
          in elems (fst r) = admitted
             \<and> elems (sitemapLocations (snd r)) = elems (sitemapLocations s) @ url # admitted
             \<and> len (sitemapLocations (snd r)) = len (sitemapLocations s) + 1 + length admitted
             \<and> len (fst r) = length admitted)"
  using parse_IndexDocument(1,2) [OF assms, of s url]
  by (simp add: Let_def len_def)

text \<open>C3 on the sample index, with a follow filter that admits one of its two children.\<close>

theorem parse_index_step_witness:
  "classify sample_env index_doc = IndexDocument
   \<and> elems (fst (parse sample_env (SetFollow sample_env (Slice [''a.xml'']) New)
        ''http://h/index.xml'' index_doc)) = [''http://h/a.xml'']
   \<and> elems (sitemapLocations (snd (parse sample_env (SetFollow sample_env (Slice [''a.xml'']) New)
        ''http://h/index.xml'' index_doc))) = [''http://h/index.xml'', ''http://h/a.xml'']"
proof -
  have c: "classify sample_env index_doc = IndexDocument"
    by (simp add: classify_def kind_of_def sample_index_eval)
  show ?thesis
    using c parse_index_step [OF c, of "SetFollow sample_env (Slice [''a.xml'']) New"
        "''http://h/index.xml''"]
    by (simp add: Let_def sample_index_eval sample_follow matches_def entry_of_def HasPrefix_def)
qed

section \<open>One parse step on a leaf set\<close>

text \<open>
  C4. On a document that \<open>parse\<close> classifies as a leaf set, with M entries of which the
  rules filter admits K, one parse step appends exactly the K admitted entries to the
  admitted URLs, K is at most M, and the discovered locations stay as they were: the
  leaf document's own locator is not recorded. No location is handed back.
\<close>

theorem parse_leaf_set_step:
  assumes "classify env content = LeafSetDocument"
  shows "(let entries = elems (URL (fst (parseURLSet env content)));
              admitted = filter (\<lambda>u. matches env (rulesRegexes (cfg s)) (Loc u)) entries;
              r = parse env s url content
          in elems (urls (snd r)) = elems (urls s) @ admitted
             \<and> len (urls (snd r)) = len (urls s) + length admitted
             \<and> length admitted \<le> length entries
             \<and> sitemapLocations (snd r) = sitemapLocations s
             \<and> fst r = NilSlice)"
  using parse_LeafSetDocument [OF assms, of s url]
  by (simp add: Let_def len_def)

text \<open>C4 on the sample leaf set, with a rules filter that admits one of its two entries.\<close>

theorem parse_leaf_set_step_witness:
  "classify sample_env leaf_doc = LeafSetDocument
   \<and> elems (urls (snd (parse sample_env (SetRules sample_env (Slice [''page-02'']) New)
        ''http://h/sitemap.xml'' leaf_doc))) = [url_of ''http://h/page-02'']
   \<and> sitemapLocations (snd (parse sample_env (SetRules sample_env (Slice [''page-02'']) New)
        ''http://h/sitemap.xml'' leaf_doc)) = NilSlice"
proof -
  have c: "classify sample_env leaf_doc = LeafSetDocument"
    by (simp add: classify_def kind_of_def sample_leaf_eval zero_sitemapIndex_def)
  show ?thesis
    using c parse_leaf_set_step [OF c, of "SetRules sample_env (Slice [''page-02'']) New"
        "''http://h/sitemap.xml''"]
    by (simp add: Let_def sample_leaf_eval sample_rules matches_def url_of_def HasPrefix_def)
qed

section \<open>The sample and the stored collection\<close>

text \<open>
  C5, evaluated where the code departs from it. With three stored URLs, \<open>n = 1\<close> and a
  draw of index 0, \<open>GetRandomURLs\<close> returns the first URL and leaves the stored
  collection with its first cell overwritten by the last: the length is kept, the first
  URL is gone and the third is there twice.
\<close>

theorem GetRandomURLs_overwrites_stored_urls:
  "urls sample_S =
     Slice [url_of ''http://h/page-01'', url_of ''http://h/page-02'', url_of ''http://h/page-03'']
   \<and> GetRandomURLs (\<lambda>i. 0) (Some sample_S) 1 =
       Inr (Slice [url_of ''http://h/page-01''],
            Some (sample_S\<lparr>urls := Slice [url_of ''http://h/page-03'', url_of ''http://h/page-02'',
                                          url_of ''http://h/page-03'']\<rparr>))"
  by (simp add: GetRandomURLs_def sample_S_def sample_urls_def GetRandomURLs_loop.simps)



section \<open>Empty content\<close>




section \<open>Failure of the entry fetch\<close>

text \<open>
  C7. When the entry content has to be fetched (no content is supplied) and the fetch
  fails, for whatever reason \<open>fetch\<close> fails, \<open>Parse\<close> returns at once with that error:
  it is the one error recorded, and the discovered locations and the admitted URLs are
  as they were before the call, so empty on a fresh instance. Nothing is traversed, and
  the result does not depend on the fuel.
\<close>

theorem Parse_initial_fetch_failure:
  assumes "len (errs s) = 0" and "fetch env s url = Inl e"
  shows "Parse env fuel s url None =
           Some (s\<lparr>mainURL := url, mainURLContent := [], errs := Slice [e]\<rparr>, Some e)
         \<and> len (errs (fst (the (Parse env fuel s url None)))) = 1
         \<and> sitemapLocations (fst (the (Parse env fuel s url None))) = sitemapLocations s
         \<and> urls (fst (the (Parse env fuel s url None))) = urls s"
  using Parse_fetch_failure [OF assms, of fuel] by simp

text \<open>C7 on a fresh instance and a locator the sample site answers with status 404.\<close>

theorem Parse_initial_fetch_failure_witness:
  "len (errs New) = 0
   \<and> fetch sample_env New ''http://h/404'' = Inl (HTTPStatus 404)
   \<and> Parse sample_env 0 New ''http://h/404'' None =
       Some (New\<lparr>mainURL := ''http://h/404'', mainURLContent := [], errs := Slice [HTTPStatus 404]\<rparr>,
             Some (HTTPStatus 404))
   \<and> sitemapLocations (fst (the (Parse sample_env 0 New ''http://h/404'' None))) = NilSlice
   \<and> urls (fst (the (Parse sample_env 0 New ''http://h/404'' None))) = NilSlice"
proof -
  have a: "len (errs New) = 0" by simp
  have b: "fetch sample_env New ''http://h/404'' = Inl (HTTPStatus 404)" by simp
  show ?thesis
    using a b Parse_initial_fetch_failure [OF a b, of 0]
    by simp
qed

section \<open>The guard on configuration errors\<close>

text \<open>
  C8. When a pattern handed to \<open>SetFollow\<close> or \<open>SetRules\<close> does not compile, every
  call of \<open>Parse\<close> on the instance, for any locator, content and fuel, returns at once
  with the guard error and the instance exactly as it was: nothing is fetched or
  classified and no collection changes. The instance it hands back is the same one, so a
  further call meets the same guard.
\<close>

theorem Parse_blocked_after_pattern_error:
  assumes "p \<in> set (elems regexes)" and "regexp_Compile env p = Inl err"
  shows "Parse env fuel (SetFollow env regexes s) url urlContent =
           Some (SetFollow env regexes s, Some ErrorsBeforeParsing)
         \<and> Parse env fuel (SetRules env regexes s) url urlContent =
           Some (SetRules env regexes s, Some ErrorsBeforeParsing)
         \<and> Parse env fuel' (fst (the (Parse env fuel (SetFollow env regexes s) url urlContent)))
             url' urlContent' =
           Some (SetFollow env regexes s, Some ErrorsBeforeParsing)
         \<and> Parse env fuel' (fst (the (Parse env fuel (SetRules env regexes s) url urlContent)))
             url' urlContent' =
           Some (SetRules env regexes s, Some ErrorsBeforeParsing)"
  using SetFollow_records_error [OF assms, of s] SetRules_records_error [OF assms, of s]
  by (simp add: Parse_guard)

text \<open>C8 on a fresh instance given the follow pattern \<open>(\<close>, which does not compile.\<close>

theorem Parse_blocked_after_pattern_error_witness:
  "''('' \<in> set (elems (Slice [''('']))
   \<and> regexp_Compile sample_env ''('' = Inl (LibraryError ''error parsing regexp: missing closing )'')
   \<and> errs (SetFollow sample_env (Slice [''('']) New) =
       Slice [LibraryError ''error parsing regexp: missing closing )'']
   \<and> Parse sample_env 0 (SetFollow sample_env (Slice [''('']) New) ''http://h/sitemap.xml'' None =
       Some (SetFollow sample_env (Slice [''('']) New, Some ErrorsBeforeParsing)"
proof -
  have a: "''('' \<in> set (elems (Slice [''('']))" by simp
  have b: "regexp_Compile sample_env ''('' =
      Inl (LibraryError ''error parsing regexp: missing closing )'')"
    by (simp add: sample_env_def)
  have c: "errs (SetFollow sample_env (Slice [''('']) New) =
       Slice [LibraryError ''error parsing regexp: missing closing )'']"
    by (simp add: SetFollow_def b append_slice_def)
  show ?thesis
    using a b c Parse_blocked_after_pattern_error [OF a b, of 0 New "''http://h/sitemap.xml''" None]
    by simp
qed

section \<open>Nil receivers\<close>

text \<open>
  C10. On a nil receiver \<open>GetErrorsCount\<close> returns 0, \<open>GetErrors\<close> returns nil,
  \<open>GetURLCount\<close> returns 0 and \<open>GetRandomURLs\<close> returns an empty, non-nil slice for every
  argument (negative ones included, since the nil check comes before the allocation);
  none of them panics.
\<close>

theorem nil_receiver_accessors:
  "GetErrorsCount None = 0 \<and> GetErrors None = NilSlice \<and> GetURLCount None = 0
   \<and> GetRandomURLs rnd None n = Inr (Slice [], None)"
  by (simp add: GetErrorsCount_def GetErrors_def GetURLCount_def GetRandomURLs_def)

end
